theory Spec2Isabelle
  imports Complex_Main
begin

section \<open>Common ground: Python errors and checked indexing\<close>

text \<open>
  The exceptions of the source that the embedding distinguishes. A function of the source
  that can raise returns \<open>py_error + 'a\<close>, with \<open>Inl\<close> for the exception.
\<close>

datatype py_error =
    IndexError | ZeroDivisionError | ValueError | KeyError | TypeError
  | AssertionError | AttributeError | RuntimeError

definition bind_err :: "py_error + 'a \<Rightarrow> ('a \<Rightarrow> py_error + 'b) \<Rightarrow> py_error + 'b" where
  "bind_err m f = (case m of Inl e \<Rightarrow> Inl e | Inr x \<Rightarrow> f x)"

text \<open>\<open>xs[i]\<close> for a non-negative position: past the end Python raises IndexError.\<close>

definition getitem :: "'a list \<Rightarrow> nat \<Rightarrow> py_error + 'a" where
  "getitem xs i = (if i < length xs then Inr (xs ! i) else Inl IndexError)"

text \<open>True division of a float by a Python int: a zero divisor raises.\<close>

definition truediv :: "real \<Rightarrow> int \<Rightarrow> py_error + real" where
  "truediv a n = (if n = 0 then Inl ZeroDivisionError else Inr (a / real_of_int n))"

section \<open>GridClass\<close>

text \<open>
  \<open>np.linspace(start, stop, num)\<close> with the end point included: \<open>num\<close> samples
  \<open>start + i * step\<close> with \<open>step = (stop - start) / (num - 1)\<close>; one sample is
  \<open>start\<close> alone, a negative \<open>num\<close> raises ValueError. Coordinates are real numbers
  (the rounding of float64 is outside the model).
\<close>

definition linspace :: "real \<Rightarrow> real \<Rightarrow> int \<Rightarrow> py_error + real list" where
  "linspace start stop num =
     (if num < 0 then Inl ValueError
      else Inr (map (\<lambda>i. if num = 1 then start
                          else start + real i * ((stop - start) / real_of_int (num - 1)))
                    [0..<nat num]))"

text \<open>
  \<open>np.meshgrid(xs, ys, zs, indexing="ij")\<close>, each array ravelled and the three stacked as
  columns: the rows are the triples in lexicographic order, x slowest and z fastest.
\<close>

definition meshgrid_ravel :: "real list \<Rightarrow> real list \<Rightarrow> real list \<Rightarrow> (real \<times> real \<times> real) list" where
  "meshgrid_ravel xs ys zs =
     concat (map (\<lambda>x. concat (map (\<lambda>y. map (\<lambda>z. (x, y, z)) zs) ys)) xs)"

text \<open>
  \<open>GridClass.create_regular_grid_3d\<close>. The three cell widths are all divided by
  \<open>resolution[0]\<close>, as the source has it.
\<close>

definition create_regular_grid_3d :: "real list \<Rightarrow> int list \<Rightarrow> py_error + (real \<times> real \<times> real) list" where
  "create_regular_grid_3d extent resolution =
     bind_err (getitem extent 1) (\<lambda>e1.
     bind_err (getitem extent 0) (\<lambda>e0.
     bind_err (getitem resolution 0) (\<lambda>r0.
     bind_err (truediv (e1 - e0) r0) (\<lambda>dx.
     bind_err (getitem extent 3) (\<lambda>e3.
     bind_err (getitem extent 2) (\<lambda>e2.
     bind_err (truediv (e3 - e2) r0) (\<lambda>dy.
     bind_err (getitem extent 5) (\<lambda>e5.
     bind_err (getitem extent 4) (\<lambda>e4.
     bind_err (truediv (e5 - e4) r0) (\<lambda>dz.
     bind_err (linspace (e0 + dx / 2) (e1 - dx / 2) r0) (\<lambda>xs.
     bind_err (getitem resolution 1) (\<lambda>r1.
     bind_err (linspace (e2 + dy / 2) (e3 - dy / 2) r1) (\<lambda>ys.
     bind_err (getitem resolution 2) (\<lambda>r2.
     bind_err (linspace (e4 + dz / 2) (e5 - dz / 2) r2) (\<lambda>zs.
     Inr (meshgrid_ravel xs ys zs))))))))))))))))"

text \<open>
  A float64 value that a division can produce: the code never raises on a zero divisor of
  a numpy array, it yields an infinity or NaN. Finite values are real numbers; rounding,
  overflow and the sign of zero are outside the model (a zero divisor counts as \<open>+0.0\<close>).
\<close>

datatype npfloat = Finite real | PosInf | NegInf | NaN

fun np_negative :: "npfloat \<Rightarrow> npfloat" where
  "np_negative (Finite a) = Finite (- a)"
| "np_negative PosInf = NegInf"
| "np_negative NegInf = PosInf"
| "np_negative NaN = NaN"

fun np_add :: "npfloat \<Rightarrow> npfloat \<Rightarrow> npfloat" where
  "np_add (Finite a) (Finite b) = Finite (a + b)"
| "np_add NaN b = NaN"
| "np_add a NaN = NaN"
| "np_add PosInf NegInf = NaN"
| "np_add NegInf PosInf = NaN"
| "np_add PosInf b = PosInf"
| "np_add a PosInf = PosInf"
| "np_add NegInf b = NegInf"
| "np_add a NegInf = NegInf"

definition np_subtract :: "npfloat \<Rightarrow> npfloat \<Rightarrow> npfloat" where
  "np_subtract a b = np_add a (np_negative b)"

fun np_multiply :: "npfloat \<Rightarrow> npfloat \<Rightarrow> npfloat" where
  "np_multiply (Finite a) (Finite b) = Finite (a * b)"
| "np_multiply NaN b = NaN"
| "np_multiply a NaN = NaN"
| "np_multiply (Finite a) PosInf = (if 0 < a then PosInf else if a < 0 then NegInf else NaN)"
| "np_multiply (Finite a) NegInf = (if 0 < a then NegInf else if a < 0 then PosInf else NaN)"
| "np_multiply PosInf (Finite b) = (if 0 < b then PosInf else if b < 0 then NegInf else NaN)"
| "np_multiply NegInf (Finite b) = (if 0 < b then NegInf else if b < 0 then PosInf else NaN)"
| "np_multiply PosInf PosInf = PosInf"
| "np_multiply PosInf NegInf = NegInf"
| "np_multiply NegInf PosInf = NegInf"
| "np_multiply NegInf NegInf = PosInf"

fun np_true_divide :: "npfloat \<Rightarrow> npfloat \<Rightarrow> npfloat" where
  "np_true_divide (Finite a) (Finite b) =
     (if b \<noteq> 0 then Finite (a / b)
      else if 0 < a then PosInf else if a < 0 then NegInf else NaN)"
| "np_true_divide NaN b = NaN"
| "np_true_divide a NaN = NaN"
| "np_true_divide (Finite a) PosInf = Finite 0"
| "np_true_divide (Finite a) NegInf = Finite 0"
| "np_true_divide PosInf (Finite b) = (if 0 \<le> b then PosInf else NegInf)"
| "np_true_divide NegInf (Finite b) = (if 0 \<le> b then NegInf else PosInf)"
| "np_true_divide PosInf PosInf = NaN"
| "np_true_divide PosInf NegInf = NaN"
| "np_true_divide NegInf PosInf = NaN"
| "np_true_divide NegInf NegInf = NaN"

text \<open>
  The larger of two entries, for the \<open>np.max\<close> over the three ranges
  \<open>max_coord - min_coord\<close>; NaN if either entry is (the three ranges are NaN together, for
  tables without rows).
\<close>

fun np_maximum :: "npfloat \<Rightarrow> npfloat \<Rightarrow> npfloat" where
  "np_maximum (Finite a) (Finite b) = Finite (max a b)"
| "np_maximum NaN b = NaN"
| "np_maximum a NaN = NaN"
| "np_maximum PosInf b = PosInf"
| "np_maximum a PosInf = PosInf"
| "np_maximum NegInf b = b"
| "np_maximum a NegInf = a"

record GridClass =
  extent :: "real list"
  resolution :: "int list"
  grid_values :: "(real \<times> real \<times> real) list"
  extent_r :: "npfloat list"
  values_r :: "(npfloat \<times> npfloat \<times> npfloat) list"

text \<open>\<open>GridClass.set_regular_grid\<close>: stores extent and resolution, then the generated points.\<close>

definition set_regular_grid :: "GridClass \<Rightarrow> real list \<Rightarrow> int list \<Rightarrow> py_error + GridClass" where
  "set_regular_grid g ext res =
     bind_err (create_regular_grid_3d ext res) (\<lambda>vals.
       Inr (g\<lparr>extent := ext, resolution := res, grid_values := vals\<rparr>))"

text \<open>
  The lattice as the specification words it: along each axis \<open>n\<close> cell centres, from the
  minimum plus half a cell to the maximum minus half a cell, the cell width being the
  length of that axis divided by the resolution of that same axis.
\<close>

definition cell_centres :: "real \<Rightarrow> real \<Rightarrow> nat \<Rightarrow> real list" where
  "cell_centres lo hi n = map (\<lambda>i. lo + (hi - lo) / real n * (real i + 1 / 2)) [0..<n]"

definition spec_regular_grid :: "real list \<Rightarrow> int list \<Rightarrow> (real \<times> real \<times> real) list" where
  "spec_regular_grid ext res =
     meshgrid_ravel (cell_centres (ext ! 0) (ext ! 1) (nat (res ! 0)))
                    (cell_centres (ext ! 2) (ext ! 3) (nat (res ! 1)))
                    (cell_centres (ext ! 4) (ext ! 5) (nat (res ! 2)))"

section \<open>Observation tables\<close>

text \<open>
  A row of the data frame of \<open>Data\<close> (the columns shared by Interfaces and Orientations):
  the coordinates, their rescaled mirror (NaN until rescaled), the surface label and the
  derived columns \<open>series\<close>, \<open>id\<close> and \<open>order_series\<close>, which \<open>set_dependent_properties\<close>
  creates as NaN (\<open>None\<close>) and the mapping functions fill in.
\<close>

record data_row =
  X :: real
  Y :: real
  Z :: real
  X_r :: npfloat
  Y_r :: npfloat
  Z_r :: npfloat
  surface :: string
  series :: "string option"
  id_col :: "nat option"
  order_series :: "nat option"

text \<open>A row of Orientations: the gradient and the dip, azimuth (degrees) and polarity.\<close>

record orientation_row = data_row +
  G_x :: real
  G_y :: real
  G_z :: real
  dip :: real
  azimuth :: real
  polarity :: real

section \<open>RescaledData\<close>

record RescaledData =
  interfaces :: "data_row list"
  orientations :: "orientation_row list"
  grid :: GridClass
  centers :: "(npfloat \<times> npfloat \<times> npfloat) option"
  rescaling_factor :: "npfloat option"

text \<open>
  \<open>df.max()\<close> and \<open>df.min()\<close> of one coordinate column: the extremum of the entries, NaN for
  a column without entries.
\<close>

fun column_max :: "real list \<Rightarrow> npfloat" where
  "column_max [] = NaN"
| "column_max (x # xs) = Finite (fold max xs x)"

fun column_min :: "real list \<Rightarrow> npfloat" where
  "column_min [] = NaN"
| "column_min (x # xs) = Finite (fold min xs x)"

text \<open>
  \<open>RescaledData.max_min_coord\<close> with both tables given, as \<open>rescale_data\<close> calls it: the
  orientations and the interfaces are concatenated, then the columns X, Y, Z reduced.
\<close>

definition max_min_coord ::
  "data_row list \<Rightarrow> orientation_row list
     \<Rightarrow> (npfloat \<times> npfloat \<times> npfloat) \<times> (npfloat \<times> npfloat \<times> npfloat)" where
  "max_min_coord ifs ors =
     (let xs = map X ors @ map X ifs; ys = map Y ors @ map Y ifs; zs = map Z ors @ map Z ifs
      in ((column_max xs, column_max ys, column_max zs),
          (column_min xs, column_min ys, column_min zs)))"

text \<open>\<open>compute_data_center\<close> with the extrema given: \<open>(max_coord + min_coord) / 2\<close>.\<close>

definition compute_data_center ::
  "(npfloat \<times> npfloat \<times> npfloat) \<Rightarrow> (npfloat \<times> npfloat \<times> npfloat) \<Rightarrow> (npfloat \<times> npfloat \<times> npfloat)" where
  "compute_data_center max_coord min_coord =
     (case (max_coord, min_coord) of ((mx, my, mz), (nx, ny, nz)) \<Rightarrow>
        (np_true_divide (np_add mx nx) (Finite 2),
         np_true_divide (np_add my ny) (Finite 2),
         np_true_divide (np_add mz nz) (Finite 2)))"

text \<open>\<open>compute_rescaling_factor\<close> with the extrema given: \<open>2 * np.max(max_coord - min_coord)\<close>.\<close>

definition compute_rescaling_factor ::
  "(npfloat \<times> npfloat \<times> npfloat) \<Rightarrow> (npfloat \<times> npfloat \<times> npfloat) \<Rightarrow> npfloat" where
  "compute_rescaling_factor max_coord min_coord =
     (case (max_coord, min_coord) of ((mx, my, mz), (nx, ny, nz)) \<Rightarrow>
        np_multiply (Finite 2)
          (np_maximum (np_maximum (np_subtract mx nx) (np_subtract my ny)) (np_subtract mz nz)))"

text \<open>The arithmetic of every rescaling: \<open>(x - center) / rescaling_factor + 0.5001\<close>.\<close>

definition rescale_value :: "real \<Rightarrow> npfloat \<Rightarrow> npfloat \<Rightarrow> npfloat" where
  "rescale_value x c f =
     np_add (np_true_divide (np_subtract (Finite x) c) f) (Finite 0.5001)"

text \<open>\<open>rescale_interfaces\<close> and \<open>rescale_orientations\<close> over every row (\<open>idx = None\<close>).\<close>

definition rescale_interfaces ::
  "data_row list \<Rightarrow> npfloat \<Rightarrow> (npfloat \<times> npfloat \<times> npfloat) \<Rightarrow> (npfloat \<times> npfloat \<times> npfloat) list" where
  "rescale_interfaces ifs f c =
     (case c of (cx, cy, cz) \<Rightarrow>
        map (\<lambda>r. (rescale_value (X r) cx f, rescale_value (Y r) cy f, rescale_value (Z r) cz f)) ifs)"

definition rescale_orientations ::
  "orientation_row list \<Rightarrow> npfloat \<Rightarrow> (npfloat \<times> npfloat \<times> npfloat) \<Rightarrow> (npfloat \<times> npfloat \<times> npfloat) list" where
  "rescale_orientations ors f c =
     (case c of (cx, cy, cz) \<Rightarrow>
        map (\<lambda>r. (rescale_value (X r) cx f, rescale_value (Y r) cy f, rescale_value (Z r) cz f)) ors)"

text \<open>Writing the three rescaled columns back into the rows.\<close>

definition put_rescaled :: "'a data_row_scheme \<Rightarrow> (npfloat \<times> npfloat \<times> npfloat) \<Rightarrow> 'a data_row_scheme" where
  "put_rescaled r t = (case t of (a, b, c) \<Rightarrow> r\<lparr>X_r := a, Y_r := b, Z_r := c\<rparr>)"

text \<open>
  \<open>set_rescaled_interfaces\<close> and \<open>set_rescaled_orientations\<close> read the factor and the
  centres from the object; subtracting or dividing by an attribute that is still \<open>None\<close>
  raises TypeError.
\<close>

definition set_rescaled_interfaces :: "RescaledData \<Rightarrow> py_error + RescaledData" where
  "set_rescaled_interfaces self =
     (case (rescaling_factor self, centers self) of
        (Some f, Some c) \<Rightarrow>
          Inr (self\<lparr>interfaces := map2 put_rescaled (interfaces self)
                                      (rescale_interfaces (interfaces self) f c)\<rparr>)
      | _ \<Rightarrow> Inl TypeError)"

definition set_rescaled_orientations :: "RescaledData \<Rightarrow> py_error + RescaledData" where
  "set_rescaled_orientations self =
     (case (rescaling_factor self, centers self) of
        (Some f, Some c) \<Rightarrow>
          Inr (self\<lparr>orientations := map2 put_rescaled (orientations self)
                                        (rescale_orientations (orientations self) f c)\<rparr>)
      | _ \<Rightarrow> Inl TypeError)"

text \<open>
  \<open>rescale_grid\<close>: the extent minus \<open>np.repeat(centers, 2)\<close>, that is each edge minus the
  centre of its axis, and the values minus the centres row by row. An extent that has not
  six entries cannot be subtracted from the six repeated centres: ValueError.
\<close>

definition rescale_grid ::
  "GridClass \<Rightarrow> npfloat \<Rightarrow> (npfloat \<times> npfloat \<times> npfloat)
     \<Rightarrow> py_error + (npfloat list \<times> (npfloat \<times> npfloat \<times> npfloat) list)" where
  "rescale_grid g f c =
     (case c of (cx, cy, cz) \<Rightarrow>
        if length (extent g) \<noteq> 6 then Inl ValueError
        else Inr (map2 (\<lambda>e ce. rescale_value e ce f) (extent g) [cx, cx, cy, cy, cz, cz],
                  map (\<lambda>(x, y, z). (rescale_value x cx f, rescale_value y cy f, rescale_value z cz f))
                      (grid_values g)))"

definition set_rescaled_grid :: "RescaledData \<Rightarrow> py_error + RescaledData" where
  "set_rescaled_grid self =
     (case (rescaling_factor self, centers self) of
        (Some f, Some c) \<Rightarrow>
          bind_err (rescale_grid (grid self) f c) (\<lambda>(er, vr).
            Inr (self\<lparr>grid := (grid self)\<lparr>extent_r := er, values_r := vr\<rparr>\<rparr>))
      | _ \<Rightarrow> Inl TypeError)"

text \<open>
  \<open>RescaledData.rescale_data\<close>: the factor and the centres are computed from the extrema
  unless the caller supplies them, then interfaces, orientations and grid are rescaled.
\<close>

definition rescale_data ::
  "RescaledData \<Rightarrow> npfloat option \<Rightarrow> (npfloat \<times> npfloat \<times> npfloat) option \<Rightarrow> py_error + RescaledData" where
  "rescale_data self rescaling_factor_arg centers_arg =
     (case max_min_coord (interfaces self) (orientations self) of (max_coord, min_coord) \<Rightarrow>
        let s1 = self\<lparr>rescaling_factor :=
                        Some (case rescaling_factor_arg of
                                None \<Rightarrow> compute_rescaling_factor max_coord min_coord
                              | Some v \<Rightarrow> v)\<rparr>;
            s2 = s1\<lparr>centers :=
                      Some (case centers_arg of
                              None \<Rightarrow> compute_data_center max_coord min_coord
                            | Some v \<Rightarrow> v)\<rparr>
        in bind_err (set_rescaled_interfaces s2) (\<lambda>s3.
           bind_err (set_rescaled_orientations s3) set_rescaled_grid))"

subsection \<open>The rescaling as the specification words it\<close>

text \<open>The coordinates of all observation points, interfaces and orientations together.\<close>

definition observed_X :: "RescaledData \<Rightarrow> real set" where
  "observed_X rd = X ` set (orientations rd) \<union> X ` set (interfaces rd)"

definition observed_Y :: "RescaledData \<Rightarrow> real set" where
  "observed_Y rd = Y ` set (orientations rd) \<union> Y ` set (interfaces rd)"

definition observed_Z :: "RescaledData \<Rightarrow> real set" where
  "observed_Z rd = Z ` set (orientations rd) \<union> Z ` set (interfaces rd)"

text \<open>Twice the largest of the three ranges of the observed bounding box.\<close>

definition spec_rescaling_factor :: "RescaledData \<Rightarrow> real" where
  "spec_rescaling_factor rd =
     2 * Max {Max (observed_X rd) - Min (observed_X rd),
              Max (observed_Y rd) - Min (observed_Y rd),
              Max (observed_Z rd) - Min (observed_Z rd)}"

text \<open>The midpoint of the observed bounding box.\<close>

definition spec_centers :: "RescaledData \<Rightarrow> real \<times> real \<times> real" where
  "spec_centers rd =
     ((Max (observed_X rd) + Min (observed_X rd)) / 2,
      (Max (observed_Y rd) + Min (observed_Y rd)) / 2,
      (Max (observed_Z rd) + Min (observed_Z rd)) / 2)"

text \<open>
  \<open>(x - center) / rescaling_factor + 0.5001\<close> for a finite centre and factor. When the
  factor is zero (all observation points coincide) float64 division gives an infinity with
  the sign of the numerator, or NaN for \<open>0 / 0\<close>, and adding 0.5001 keeps it.
\<close>

definition spec_rescaled :: "real \<Rightarrow> real \<Rightarrow> real \<Rightarrow> npfloat" where
  "spec_rescaled x c f =
     (if f \<noteq> 0 then Finite ((x - c) / f + 0.5001)
      else if c < x then PosInf else if x < c then NegInf else NaN)"

section \<open>Orientations: gradient and dip, azimuth, polarity\<close>






definition deg2rad :: "real \<Rightarrow> real" where
  "deg2rad a = a * pi / 180"



text \<open>
  \<open>Orientations.calculate_gradient\<close> on the whole table (\<open>idx = None\<close>): the three
  components from dip, azimuth and polarity, each plus \<open>1e-12\<close>.
\<close>

definition calculate_gradient_row :: "orientation_row \<Rightarrow> orientation_row" where
  "calculate_gradient_row r =
     (let r1 = r\<lparr>G_x := sin (deg2rad (dip r)) * sin (deg2rad (azimuth r)) * polarity r + 1 / 10 ^ 12\<rparr>;
          r2 = r1\<lparr>G_y := sin (deg2rad (dip r1)) * cos (deg2rad (azimuth r1)) * polarity r1 + 1 / 10 ^ 12\<rparr>;
          r3 = r2\<lparr>G_z := cos (deg2rad (dip r2)) * polarity r2 + 1 / 10 ^ 12\<rparr>
      in r3)"


subsection \<open>A small data set\<close>

text \<open>
  One interface point at the origin and one orientation at \<open>(2, 4, 8)\<close>, with a one-cell
  grid over their bounding box.
\<close>

definition example_interface :: data_row where
  "example_interface =
     \<lparr>X = 0, Y = 0, Z = 0, X_r = NaN, Y_r = NaN, Z_r = NaN, surface = ''rock1'',
      series = None, id_col = None, order_series = None\<rparr>"

definition example_orientation :: orientation_row where
  "example_orientation =
     \<lparr>X = 2, Y = 4, Z = 8, X_r = NaN, Y_r = NaN, Z_r = NaN, surface = ''rock1'',
      series = None, id_col = None, order_series = None,
      G_x = 0, G_y = 0, G_z = 1, dip = 0, azimuth = 0, polarity = 1\<rparr>"

definition example_grid :: GridClass where
  "example_grid =
     \<lparr>extent = [0, 2, 0, 4, 0, 8], resolution = [1, 1, 1], grid_values = [(1, 2, 4)],
      extent_r = [], values_r = []\<rparr>"

definition example_rescaled_data :: RescaledData where
  "example_rescaled_data =
     \<lparr>interfaces = [example_interface], orientations = [example_orientation],
      grid = example_grid, centers = None, rescaling_factor = None\<rparr>"

text \<open>An orientation whose pole points east: the unit gradient \<open>(1, 0, 0)\<close>.\<close>

definition example_pole_east :: orientation_row where
  "example_pole_east =
     \<lparr>X = 0, Y = 0, Z = 0, X_r = NaN, Y_r = NaN, Z_r = NaN, surface = ''rock1'',
      series = None, id_col = None, order_series = None,
      G_x = 1, G_y = 0, G_z = 0, dip = 0, azimuth = 0, polarity = 0\<rparr>"

section \<open>Structure\<close>

text \<open>
  \<open>Series.value_counts(sort=False).values\<close> of a numeric column: NaN entries are dropped,
  and each distinct value is counted once, here in the order of first appearance (the sums
  below do not depend on that order).
\<close>

definition unique_values :: "'a list \<Rightarrow> 'a list" where
  "unique_values xs = rev (remdups (rev xs))"

definition dropna :: "'a option list \<Rightarrow> 'a list" where
  "dropna col = concat (map (\<lambda>v. case v of None \<Rightarrow> [] | Some a \<Rightarrow> [a]) col)"

definition value_counts :: "'a option list \<Rightarrow> nat list" where
  "value_counts col = map (count_list (dropna col)) (unique_values (dropna col))"

fun cumsum_from :: "nat \<Rightarrow> nat list \<Rightarrow> nat list" where
  "cumsum_from acc [] = []"
| "cumsum_from acc (x # xs) = (acc + x) # cumsum_from (acc + x) xs"

definition cumsum :: "nat list \<Rightarrow> nat list" where
  "cumsum xs = cumsum_from 0 xs"

text \<open>\<open>Structure.set_length_formations_i\<close>: the number of interface rows of every id.\<close>

definition set_length_formations_i :: "data_row list \<Rightarrow> nat list" where
  "set_length_formations_i df = value_counts (map id_col df)"

text \<open>
  \<open>Structure.set_length_series_i\<close>: the number of interface rows of every series; an array
  without entries gets a single 0.
\<close>

definition set_length_series_i :: "data_row list \<Rightarrow> nat list" where
  "set_length_series_i df =
     (let len_series_i = value_counts (map order_series df)
      in if length len_series_i = 0 then [0] else len_series_i)"

definition set_length_series_o :: "orientation_row list \<Rightarrow> nat list" where
  "set_length_series_o df = value_counts (map order_series df)"

text \<open>\<open>Structure.set_ref_position\<close>: \<open>np.insert(len_formations_i[:-1], 0, 0).cumsum()\<close>.\<close>

definition set_ref_position :: "nat list \<Rightarrow> nat list" where
  "set_ref_position len_formations_i = cumsum (0 # butlast len_formations_i)"

text \<open>
  \<open>Structure.set_number_of_formations_per_series\<close>:
  \<open>df.groupby('order_series').surface.nunique().values.cumsum()\<close>. The groups are the
  distinct \<open>order_series\<close> values in ascending order (rows with NaN there belong to no
  group); each contributes its number of distinct surfaces.
\<close>

definition group_keys :: "data_row list \<Rightarrow> nat list" where
  "group_keys df = sorted_list_of_set (set (dropna (map order_series df)))"

definition group_surfaces :: "data_row list \<Rightarrow> nat \<Rightarrow> string list" where
  "group_surfaces df k = map surface (filter (\<lambda>r. order_series r = Some k) df)"

definition nunique :: "'a list \<Rightarrow> nat" where
  "nunique xs = length (remdups xs)"

definition set_number_of_formations_per_series :: "data_row list \<Rightarrow> nat list" where
  "set_number_of_formations_per_series df =
     cumsum (map (\<lambda>k. nunique (group_surfaces df k)) (group_keys df))"

text \<open>Interface rows for the examples: a surface, its id and the rank of its series.\<close>

definition interface_of :: "string \<Rightarrow> nat \<Rightarrow> nat \<Rightarrow> data_row" where
  "interface_of s i k =
     \<lparr>X = 0, Y = 0, Z = 0, X_r = NaN, Y_r = NaN, Z_r = NaN, surface = s,
      series = None, id_col = Some i, order_series = Some k\<rparr>"



section \<open>AdditionalData: the default kriging parameters\<close>







text \<open>
  Two tables: three interface points on two surfaces of two series, and two points of one
  surface that carry different series ranks.
\<close>

definition example_interfaces :: "data_row list" where
  "example_interfaces =
     [interface_of ''rock1'' 1 1, interface_of ''rock1'' 1 1, interface_of ''rock2'' 2 2]"

definition example_split_surface :: "data_row list" where
  "example_split_surface = [interface_of ''rock1'' 1 1, interface_of ''rock1'' 1 2]"

section \<open>Solution: surface extraction on the regular grid\<close>
















section \<open>Series and the fault relations\<close>

text \<open>
  A pandas \<open>CategoricalIndex\<close>: the categories in their order, and the labels of the rows
  (or columns) it indexes.
\<close>

record CategoricalIndex =
  categories :: "string list"
  labels :: "string list"

text \<open>
  The state that the methods of \<open>Series\<close> touch: the index of \<open>Series.df\<close>, the index of
  \<open>faults.df\<close>, and the frame \<open>faults.faults_relations_df\<close> with its row index, its column
  index and its cells (\<open>None\<close> is NaN). A frame has as many rows as its index has labels,
  so \<open>Series.df\<close> and \<open>faults.df\<close>, whose columns play no part here, are given by their
  index, and \<open>order_series\<close> is kept as the one column the methods write.
\<close>

record Series =
  df_index :: CategoricalIndex
  df_order_series :: "nat option list"
  faults_df_index :: CategoricalIndex
  rel_index :: CategoricalIndex
  rel_columns :: CategoricalIndex
  rel_data :: "bool option list list"

text \<open>
  \<open>frame.index = idx\<close> and \<open>frame.columns = idx\<close>: the new axis must have the length of the
  old one, else ValueError.
\<close>

definition assign_axis :: "CategoricalIndex \<Rightarrow> CategoricalIndex \<Rightarrow> py_error + CategoricalIndex" where
  "assign_axis old new =
     (if length (labels new) = length (labels old) then Inr new else Inl ValueError)"

text \<open>
  \<open>index.add_categories(new)\<close>: the new categories are appended; a new category that exists
  already, or a repeated one, raises ValueError.
\<close>

definition add_categories :: "CategoricalIndex \<Rightarrow> string list \<Rightarrow> py_error + CategoricalIndex" where
  "add_categories idx new =
     (if set new \<inter> set (categories idx) \<noteq> {} \<or> \<not> distinct new then Inl ValueError
      else Inr (idx\<lparr>categories := categories idx @ new\<rparr>))"

text \<open>\<open>index.remove_unused_categories()\<close>: the categories that label no row are dropped.\<close>

definition remove_unused_categories :: "CategoricalIndex \<Rightarrow> CategoricalIndex" where
  "remove_unused_categories idx =
     idx\<lparr>categories := filter (\<lambda>c. c \<in> set (labels idx)) (categories idx)\<rparr>"

text \<open>
  \<open>index.rename_categories(new_categories)\<close> with a list (one new name per category, in
  order) or a dict (old name to new name, other categories kept). The new categories must be
  distinct, and a list must have as many items as there are categories: ValueError
  otherwise. The labels are renamed with their categories.
\<close>

datatype renaming = RenameList "string list" | RenameDict "(string \<times> string) list"

definition renamed_by :: "(string \<times> string) list \<Rightarrow> string \<Rightarrow> string" where
  "renamed_by d c = (case map_of d c of Some c' \<Rightarrow> c' | None \<Rightarrow> c)"

fun rename_categories :: "CategoricalIndex \<Rightarrow> renaming \<Rightarrow> py_error + CategoricalIndex" where
  "rename_categories idx (RenameList new) =
     (if length new \<noteq> length (categories idx) \<or> \<not> distinct new then Inl ValueError
      else Inr \<lparr>categories = new,
                labels = map (renamed_by (zip (categories idx) new)) (labels idx)\<rparr>)"
| "rename_categories idx (RenameDict d) =
     (if \<not> distinct (map (renamed_by d) (categories idx)) then Inl ValueError
      else Inr \<lparr>categories = map (renamed_by d) (categories idx),
                labels = map (renamed_by d) (labels idx)\<rparr>)"

text \<open>
  \<open>index.reorder_categories(new_categories)\<close>: the same categories in a new order, else
  ValueError.
\<close>

definition reorder_categories :: "CategoricalIndex \<Rightarrow> string list \<Rightarrow> py_error + CategoricalIndex" where
  "reorder_categories idx new =
     (if set new \<noteq> set (categories idx) \<or> \<not> distinct new then Inl ValueError
      else Inr (idx\<lparr>categories := new\<rparr>))"

text \<open>\<open>index.sort_values()\<close>: the labels sorted by the position of their category.\<close>

definition category_code :: "string list \<Rightarrow> string \<Rightarrow> nat" where
  "category_code cats l = length (takeWhile (\<lambda>c. c \<noteq> l) cats)"

definition sort_values :: "CategoricalIndex \<Rightarrow> CategoricalIndex" where
  "sort_values idx = idx\<lparr>labels := sort_key (category_code (categories idx)) (labels idx)\<rparr>"

text \<open>
  \<open>frame.drop(indices)\<close> along one axis: every label to drop must be on the axis, else
  KeyError; the entries under the dropped labels go.
\<close>

definition drop_labels :: "CategoricalIndex \<Rightarrow> string list \<Rightarrow> py_error + CategoricalIndex" where
  "drop_labels idx indices =
     (if \<not> set indices \<subseteq> set (labels idx) then Inl KeyError
      else Inr (idx\<lparr>labels := filter (\<lambda>l. l \<notin> set indices) (labels idx)\<rparr>))"

definition drop_entries :: "string list \<Rightarrow> string list \<Rightarrow> 'a list \<Rightarrow> 'a list" where
  "drop_entries axis_labels indices xs =
     map snd (filter (\<lambda>(l, x). l \<notin> set indices) (zip axis_labels xs))"

text \<open>
  Setting with enlargement, \<open>frame.loc[c] = nan\<close>: a label that is not on the axis is
  appended; on a categorical axis it has to be one of the categories, else TypeError.
\<close>

definition loc_enlarge :: "CategoricalIndex \<Rightarrow> string \<Rightarrow> py_error + CategoricalIndex" where
  "loc_enlarge idx c =
     (if c \<in> set (labels idx) then Inr idx
      else if c \<notin> set (categories idx) then Inl TypeError
      else Inr (idx\<lparr>labels := labels idx @ [c]\<rparr>))"

text \<open>
  \<open>faults_relations_df.loc[c, c] = nan\<close> on the cells: a missing row \<open>c\<close> and a missing
  column \<open>c\<close> are appended filled with NaN, then the cell at \<open>(c, c)\<close> is NaN.
\<close>

definition loc_set_nan ::
  "string list \<Rightarrow> string list \<Rightarrow> string \<Rightarrow> bool option list list \<Rightarrow> bool option list list" where
  "loc_set_nan row_labels col_labels c cells =
     (let cells1 = (if c \<in> set row_labels then cells
                    else cells @ [replicate (length col_labels) None]);
          rows1 = (if c \<in> set row_labels then row_labels else row_labels @ [c]);
          cells2 = (if c \<in> set col_labels then cells1 else map (\<lambda>row. row @ [None]) cells1);
          cols2 = (if c \<in> set col_labels then col_labels else col_labels @ [c])
      in map2 (\<lambda>rl row. if rl = c then map2 (\<lambda>cl v. if cl = c then None else v) cols2 row
                         else row) rows1 cells2)"

text \<open>\<open>Series.update_order_series\<close>: the ranks 1 to n down the rows.\<close>

definition update_order_series :: "Series \<Rightarrow> Series" where
  "update_order_series self =
     self\<lparr>df_order_series := map Some [1..<Suc (length (labels (df_index self)))]\<rparr>"

text \<open>The body of the loop of \<open>add_series\<close> for one new series \<open>c\<close>.\<close>

definition add_series_row :: "string \<Rightarrow> Series \<Rightarrow> py_error + Series" where
  "add_series_row c self =
     bind_err (loc_enlarge (df_index self) c) (\<lambda>di.
     bind_err (loc_enlarge (faults_df_index self) c) (\<lambda>fi.
     bind_err (loc_enlarge (rel_index self) c) (\<lambda>ri.
     bind_err (loc_enlarge (rel_columns self) c) (\<lambda>rc.
       Inr (self\<lparr>df_index := di,
                 df_order_series := (if c \<in> set (labels (df_index self))
                                     then map (\<lambda>(l, v). if l = c then None else v)
                                            (zip (labels (df_index self)) (df_order_series self))
                                     else df_order_series self @ [None]),
                 faults_df_index := fi, rel_index := ri, rel_columns := rc,
                 rel_data := loc_set_nan (labels (rel_index self)) (labels (rel_columns self)) c
                               (rel_data self)\<rparr>)))))"

fun add_series_rows :: "string list \<Rightarrow> Series \<Rightarrow> py_error + Series" where
  "add_series_rows [] self = Inr self"
| "add_series_rows (c # cs) self = bind_err (add_series_row c self) (add_series_rows cs)"

text \<open>
  The four assignments that end every method: the index \<open>idx\<close> goes to \<open>Series.df\<close>, to
  \<open>faults.df\<close> and to both axes of \<open>faults_relations_df\<close>.
\<close>

definition assign_all :: "Series \<Rightarrow> CategoricalIndex \<Rightarrow> py_error + Series" where
  "assign_all self idx =
     bind_err (assign_axis (df_index self) idx) (\<lambda>di.
     bind_err (assign_axis (faults_df_index self) idx) (\<lambda>fi.
     bind_err (assign_axis (rel_index self) idx) (\<lambda>ri.
     bind_err (assign_axis (rel_columns self) idx) (\<lambda>rc.
       Inr (self\<lparr>df_index := di, faults_df_index := fi, rel_index := ri, rel_columns := rc\<rparr>)))))"

text \<open>
  \<open>Series.add_series\<close>: the names that are categories already are left out, the others
  become categories of the shared index and then rows (and columns) of the frames.
\<close>

definition add_series :: "Series \<Rightarrow> string list \<Rightarrow> bool \<Rightarrow> py_error + Series" where
  "add_series self series_list update =
     (let series_list' = filter (\<lambda>c. c \<notin> set (categories (df_index self))) series_list
      in bind_err (add_categories (df_index self) series_list') (\<lambda>idx.
         bind_err (assign_all self idx) (\<lambda>s1.
         bind_err (add_series_rows series_list' s1) (\<lambda>s2.
           Inr (if update then update_order_series s2 else s2)))))"

text \<open>
  \<open>Series.delete_series\<close>: the rows are dropped from the three frames and the columns from
  the relations, then the unused categories are removed from the shared index.
\<close>

definition delete_series :: "Series \<Rightarrow> string list \<Rightarrow> py_error + Series" where
  "delete_series self indices =
     bind_err (drop_labels (df_index self) indices) (\<lambda>di.
     bind_err (drop_labels (faults_df_index self) indices) (\<lambda>fi.
     bind_err (drop_labels (rel_index self) indices) (\<lambda>ri.
     bind_err (drop_labels (rel_columns self) indices) (\<lambda>rc.
       assign_all
         (self\<lparr>df_index := di,
               df_order_series := drop_entries (labels (df_index self)) indices (df_order_series self),
               faults_df_index := fi, rel_index := ri, rel_columns := rc,
               rel_data := map (drop_entries (labels (rel_columns self)) indices)
                             (drop_entries (labels (rel_index self)) indices (rel_data self))\<rparr>)
         (remove_unused_categories di)))))"

text \<open>\<open>Series.rename_series\<close> and \<open>Series.reorder_series\<close>.\<close>

definition rename_series :: "Series \<Rightarrow> renaming \<Rightarrow> py_error + Series" where
  "rename_series self new_categories =
     bind_err (rename_categories (df_index self) new_categories) (assign_all self)"

definition reorder_series :: "Series \<Rightarrow> string list \<Rightarrow> py_error + Series" where
  "reorder_series self new_categories =
     bind_err (reorder_categories (df_index self) new_categories) (\<lambda>idx.
       assign_all self (sort_values idx))"

text \<open>A sequence of these operations, stopping at the first that raises.\<close>

datatype series_op =
    AddSeries "string list" bool
  | RenameSeries renaming
  | ReorderSeries "string list"
  | DeleteSeries "string list"

fun apply_series_op :: "series_op \<Rightarrow> Series \<Rightarrow> py_error + Series" where
  "apply_series_op (AddSeries series_list update) self = add_series self series_list update"
| "apply_series_op (RenameSeries new_categories) self = rename_series self new_categories"
| "apply_series_op (ReorderSeries new_categories) self = reorder_series self new_categories"
| "apply_series_op (DeleteSeries indices) self = delete_series self indices"

fun apply_series_ops :: "series_op list \<Rightarrow> Series \<Rightarrow> py_error + Series" where
  "apply_series_ops [] self = Inr self"
| "apply_series_ops (x # xs) self = bind_err (apply_series_op x self) (apply_series_ops xs)"

text \<open>
  The bookkeeping invariant: \<open>faults.df\<close> and both axes of the relation frame carry the index
  of \<open>Series.df\<close>, and the cells form a square of that size.
\<close>

definition index_aligned :: "Series \<Rightarrow> bool" where
  "index_aligned self \<longleftrightarrow>
     faults_df_index self = df_index self
   \<and> rel_index self = df_index self
   \<and> rel_columns self = df_index self
   \<and> length (rel_data self) = length (labels (df_index self))
   \<and> list_all (\<lambda>row. length row = length (labels (df_index self))) (rel_data self)"

text \<open>The series \<open>A\<close>, \<open>B\<close> with an all-false relation matrix.\<close>

definition example_series :: Series where
  "example_series =
     (let idx = \<lparr>categories = [''A'', ''B''], labels = [''A'', ''B'']\<rparr>
      in \<lparr>df_index = idx, df_order_series = [Some 1, Some 2], faults_df_index = idx,
          rel_index = idx, rel_columns = idx,
          rel_data = [[Some False, Some False], [Some False, Some False]]\<rparr>)"

text \<open>
  What pandas keeps true of every frame: as many rows of cells as row labels, and as many
  cells in a row as column labels.
\<close>

definition frame_ok :: "Series \<Rightarrow> bool" where
  "frame_ok self \<longleftrightarrow>
     length (rel_data self) = length (labels (rel_index self))
   \<and> list_all (\<lambda>row. length row = length (labels (rel_columns self))) (rel_data self)"

text \<open>The scenario of the specification: add \<open>C\<close>, rename \<open>B\<close> to \<open>B2\<close>, delete \<open>A\<close>.\<close>

definition example_series_ops :: "series_op list" where
  "example_series_ops =
     [AddSeries [''C''] True, RenameSeries (RenameDict [(''B'', ''B2'')]), DeleteSeries [''A'']]"

section \<open>Formations\<close>

text \<open>
  A row of \<open>Formations.df\<close>: its index label, the formation name, the id and the basement
  flag (\<open>None\<close> is NaN, the content of a cell that setting with enlargement left unset).
  The \<open>series\<close> column and the sequential pile, which \<open>map_series\<close> and
  \<open>update_sequential_pile\<close> maintain, play no part in the ids and the basement flags
  and are left out.
\<close>

record formation_row =
  row_label :: int
  formation :: string
  formation_id :: "int option"
  isBasement :: "bool option"

record Formations =
  formation_categories :: "string list"
  df_rows :: "formation_row list"

definition empty_formations :: Formations where
  "empty_formations = \<lparr>formation_categories = [], df_rows = []\<rparr>"

text \<open>\<open>df.last_valid_index()\<close>: the label of the last row, \<open>None\<close> for a frame without rows.\<close>

definition last_valid_index :: "formation_row list \<Rightarrow> int option" where
  "last_valid_index rows = (if rows = [] then None else Some (row_label (last rows)))"

text \<open>\<open>Formations.set_id\<close>: \<open>df['id'] = df.index + 1\<close>, the label of each row plus one.\<close>

definition set_id :: "Formations \<Rightarrow> Formations" where
  "set_id self = self\<lparr>df_rows := map (\<lambda>r. r\<lparr>formation_id := Some (row_label r + 1)\<rparr>) (df_rows self)\<rparr>"

text \<open>\<open>df['isBasement'].fillna(False, inplace=True)\<close>.\<close>

definition fillna_isBasement :: "Formations \<Rightarrow> Formations" where
  "fillna_isBasement self =
     self\<lparr>df_rows := map (\<lambda>r. case isBasement r of None \<Rightarrow> r\<lparr>isBasement := Some False\<rparr> | Some b \<Rightarrow> r)
                         (df_rows self)\<rparr>"

text \<open>\<open>df['isBasement'].values.astype(bool).sum()\<close>; NaN counts as true under \<open>astype(bool)\<close>.\<close>

definition count_basement :: "Formations \<Rightarrow> nat" where
  "count_basement self = length (filter (\<lambda>r. isBasement r \<noteq> Some False) (df_rows self))"

text \<open>
  \<open>df['formation'] == basement_formation\<close>, the comparison of \<open>set_basement\<close>: with a name, or
  with the array of the names flagged so far; \<open>None\<close> equals no name. Against an array the
  comparison is numpy's: an array of one name is broadcast, an array of as many names as
  rows is compared position by position, and any other length compares unequal everywhere.
\<close>

datatype basement_key = NoKey | NameKey string | ArrayKey "string list"

fun equals_key :: "string list \<Rightarrow> basement_key \<Rightarrow> bool list" where
  "equals_key names NoKey = map (\<lambda>_. False) names"
| "equals_key names (NameKey k) = map (\<lambda>n. n = k) names"
| "equals_key names (ArrayKey ks) =
     (if length ks = 1 then map (\<lambda>n. n = hd ks) names
      else if length ks = length names then map2 (=) names ks
      else map (\<lambda>_. False) names)"

text \<open>
  \<open>Formations.set_basement\<close>: the flags become the comparison of the formation column with
  the given name, or with the names flagged so far; more than one true flag fails the
  assertion.
\<close>

definition set_basement :: "Formations \<Rightarrow> string option \<Rightarrow> py_error + Formations" where
  "set_basement self basement_formation =
     (let s1 = fillna_isBasement self;
          key = (case basement_formation of
                   Some name \<Rightarrow> NameKey name
                 | None \<Rightarrow>
                     (let flagged = map formation (filter (\<lambda>r. isBasement r = Some True) (df_rows s1))
                      in if length flagged = 0 then NoKey else ArrayKey flagged));
          s2 = s1\<lparr>df_rows := map2 (\<lambda>r b. r\<lparr>isBasement := Some b\<rparr>) (df_rows s1)
                                (equals_key (map formation (df_rows s1)) key)\<rparr>
      in if count_basement s2 \<le> 1 then Inr s2 else Inl AssertionError)"

text \<open>
  Setting cells of the row labelled \<open>l\<close> with enlargement: the row is updated if the label
  exists and appended, other cells NaN, if not.
\<close>

definition loc_set_row ::
  "formation_row list \<Rightarrow> int \<Rightarrow> (formation_row \<Rightarrow> formation_row) \<Rightarrow> formation_row \<Rightarrow> formation_row list" where
  "loc_set_row rows l upd new_row =
     (if l \<in> set (map row_label rows) then map (\<lambda>r. if row_label r = l then upd r else r) rows
      else rows @ [new_row])"

text \<open>
  The loop of \<open>add_formation\<close>: each new name goes to the row after the last valid index,
  which counts as \<open>-1\<close> for an empty frame.
\<close>

fun add_formation_rows :: "string list \<Rightarrow> formation_row list \<Rightarrow> formation_row list" where
  "add_formation_rows [] rows = rows"
| "add_formation_rows (c # cs) rows =
     (let idx = (case last_valid_index rows of None \<Rightarrow> - 1 | Some i \<Rightarrow> i)
      in add_formation_rows cs
           (loc_set_row rows (idx + 1) (\<lambda>r. r\<lparr>formation := c\<rparr>)
              \<lparr>row_label = idx + 1, formation = c, formation_id = None, isBasement = None\<rparr>))"

text \<open>
  \<open>Formations.add_formation\<close>: the names that are categories already are left out; the others
  become categories (a repeated new name raises ValueError) and rows; then, with
  \<open>update_df\<close>, the ids and the basement flags are set again.
\<close>

definition add_formation :: "Formations \<Rightarrow> string list \<Rightarrow> bool \<Rightarrow> py_error + Formations" where
  "add_formation self formation_list update_df =
     (let formation_list' = filter (\<lambda>c. c \<notin> set (formation_categories self)) formation_list
      in if \<not> distinct formation_list' then Inl ValueError
         else
           (let s1 = self\<lparr>formation_categories := formation_categories self @ formation_list',
                         df_rows := add_formation_rows formation_list' (df_rows self)\<rparr>
            in if update_df then set_basement (set_id s1) None else Inr s1))"

text \<open>
  \<open>Formations.delete_formation\<close>: the rows with the given labels are dropped (KeyError for a
  label that is not there), then \<open>set_id\<close> runs.
\<close>

definition delete_formation :: "Formations \<Rightarrow> int list \<Rightarrow> bool \<Rightarrow> py_error + Formations" where
  "delete_formation self indices update_id =
     (if \<not> set indices \<subseteq> set (map row_label (df_rows self)) then Inl KeyError
      else
        (let s1 = self\<lparr>df_rows := filter (\<lambda>r. row_label r \<notin> set indices) (df_rows self)\<rparr>
         in Inr (if update_id then set_id s1 else s1)))"

text \<open>
  \<open>Formations.add_basement\<close>: refused by the assertion when a row is flagged already;
  otherwise the name becomes a category (ValueError if it is one already) and the row after
  the last valid index gets the name and a true flag, and \<open>set_id\<close> runs. On a frame without
  rows \<open>last_valid_index()\<close> is \<open>None\<close>, and \<open>None + 1\<close> raises TypeError.
\<close>

definition add_basement :: "Formations \<Rightarrow> string option \<Rightarrow> py_error + Formations" where
  "add_basement self name_arg =
     (let s1 = fillna_isBasement self
      in if \<not> count_basement s1 < 1 then Inl AssertionError
         else
           (let name = (case name_arg of None \<Rightarrow> ''basement'' | Some n \<Rightarrow> n)
            in if name \<in> set (formation_categories s1) then Inl ValueError
               else
                 (case last_valid_index (df_rows s1) of
                    None \<Rightarrow> Inl TypeError
                  | Some i \<Rightarrow>
                      Inr (set_id
                        (s1\<lparr>formation_categories := formation_categories s1 @ [name],
                            df_rows := loc_set_row (df_rows s1) (i + 1)
                                         (\<lambda>r. r\<lparr>formation := name, isBasement := Some True\<rparr>)
                                         \<lparr>row_label = i + 1, formation = name, formation_id = None,
                                          isBasement = Some True\<rparr>\<rparr>)))))"

text \<open>The catalog of three formations that \<open>add_formation\<close> builds from the empty one.\<close>

definition example_formations :: Formations where
  "example_formations =
     \<lparr>formation_categories = [''rock1'', ''rock2'', ''rock3''],
      df_rows = [\<lparr>row_label = 0, formation = ''rock1'', formation_id = Some 1, isBasement = Some False\<rparr>,
                 \<lparr>row_label = 1, formation = ''rock2'', formation_id = Some 2, isBasement = Some False\<rparr>,
                 \<lparr>row_label = 2, formation = ''rock3'', formation_id = Some 3, isBasement = Some False\<rparr>]\<rparr>"

section \<open>Orientations.add_orientation\<close>

text \<open>
  \<open>frame.loc[k1, ..., kn] = value\<close> on a data frame. A frame has two axes: with more than
  two components the key fits no pair of axes, pandas then reads it as a list of row
  labels, and the column names in it are no row labels: KeyError, before anything is
  written. With at most two components the write goes through.
\<close>

definition loc_setitem :: "'frame \<Rightarrow> nat \<Rightarrow> ('frame \<Rightarrow> 'frame) \<Rightarrow> py_error + 'frame" where
  "loc_setitem df n_indexers write = (if 2 < n_indexers then Inl KeyError else Inr (write df))"

datatype warning = PoleVectorIsUsed

text \<open>The row that \<open>add_orientation\<close> means to write at \<open>idx\<close>, other cells NaN or unset.\<close>

definition new_orientation_row ::
  "real \<Rightarrow> real \<Rightarrow> real \<Rightarrow> string \<Rightarrow> real \<times> real \<times> real \<Rightarrow> real \<times> real \<times> real \<Rightarrow> orientation_row" where
  "new_orientation_row x y z s g ori =
     (case (g, ori) of ((gx, gy, gz), (az, dp, pol)) \<Rightarrow>
        \<lparr>X = x, Y = y, Z = z, X_r = NaN, Y_r = NaN, Z_r = NaN, surface = s,
         series = None, id_col = None, order_series = None,
         G_x = gx, G_y = gy, G_z = gz, dip = dp, azimuth = az, polarity = pol\<rparr>)"

text \<open>
  \<open>calculate_orientations(idx)\<close> for a single label \<open>idx\<close>, as \<open>add_orientation\<close> calls it.
  Polarity, dip and azimuth of the row are written; then
  \<open>self.df.loc[idx, "azimuth"][...] += 360\<close> assigns into the float that \<open>.loc\<close> returned
  for the cell, which is no container: TypeError, whatever the row holds.
\<close>

definition calculate_orientations_at :: "nat \<Rightarrow> orientation_row list \<Rightarrow> py_error + orientation_row list" where
  "calculate_orientations_at i df = Inl TypeError"

text \<open>
  \<open>calculate_gradient(idx)\<close> for a single label: the statements of the whole-table branch
  on that row; reading a row that is not there raises KeyError.
\<close>

definition calculate_gradient_at :: "nat \<Rightarrow> orientation_row list \<Rightarrow> py_error + orientation_row list" where
  "calculate_gradient_at i df =
     (if i < length df then Inr (df[i := calculate_gradient_row (df ! i)]) else Inl KeyError)"

text \<open>
  \<open>Orientations.add_orientation\<close> on a table with the default labels \<open>0 .. n-1\<close>. Without an
  \<open>idx\<close> the row goes after the last valid index, which is \<open>None\<close> for an empty table
  (\<open>None + 1\<close>: TypeError). Either branch writes the row through \<open>.loc\<close> with a key of
  eight components, \<open>self.df.loc[idx, 'X', 'Y', 'Z', ..., 'surface']\<close>, before it converts.
  The result pairs the table with the warnings issued.
\<close>

definition add_orientation ::
  "orientation_row list \<Rightarrow> real \<Rightarrow> real \<Rightarrow> real \<Rightarrow> string
     \<Rightarrow> (real \<times> real \<times> real) option \<Rightarrow> (real \<times> real \<times> real) option \<Rightarrow> nat option
     \<Rightarrow> py_error + orientation_row list \<times> warning list" where
  "add_orientation df x y z s pole_vector orientation idx_arg =
     (if pole_vector = None \<and> orientation = None then Inl AttributeError
      else
        bind_err (case idx_arg of
                    Some i \<Rightarrow> Inr i
                  | None \<Rightarrow> (if df = [] then Inl TypeError else Inr (length df))) (\<lambda>idx.
        (case pole_vector of
           Some g \<Rightarrow>
             bind_err (loc_setitem df 8
                         (\<lambda>d. if idx < length d then d[idx := new_orientation_row x y z s g (0, 0, 0)]
                              else d @ [new_orientation_row x y z s g (0, 0, 0)])) (\<lambda>df1.
             bind_err (calculate_orientations_at idx df1) (\<lambda>df2.
               Inr (df2, (if orientation \<noteq> None then [PoleVectorIsUsed] else []))))
         | None \<Rightarrow>
             (case orientation of
                Some ori \<Rightarrow>
                  bind_err (loc_setitem df 8
                              (\<lambda>d. if idx < length d then d[idx := new_orientation_row x y z s (0, 0, 0) ori]
                                   else d @ [new_orientation_row x y z s (0, 0, 0) ori])) (\<lambda>df1.
                  bind_err (calculate_gradient_at idx df1) (\<lambda>df2. Inr (df2, [])))
              | None \<Rightarrow> Inl AttributeError))))"


section \<open>Properties of the regular grid\<close>

lemma length_meshgrid_ravel:
  "length (meshgrid_ravel xs ys zs) = length xs * length ys * length zs"
  unfolding meshgrid_ravel_def
  by (induction xs) (simp_all add: length_concat comp_def sum_list_triv algebra_simps)

text \<open>
  The samples that \<open>create_regular_grid_3d\<close> takes along the x axis are the cell centres;
  so the grid is the cell-centred lattice when the three resolutions are equal. The number
  of points is the product of the resolutions in every case.
\<close>

lemma linspace_cell_centres:
  assumes n: "0 < n"
  shows "linspace (lo + (hi - lo) / real_of_int n / 2) (hi - (hi - lo) / real_of_int n / 2) n
           = Inr (cell_centres lo hi (nat n))"
proof (cases "n = 1")
  case True
  then show ?thesis by (simp add: linspace_def cell_centres_def)
next
  case False
  with n have n1: "1 < n" by simp
  define d where "d = (hi - lo) / real_of_int n"
  have nz: "real_of_int n \<noteq> 0" "real_of_int (n - 1) \<noteq> 0" using n1 by auto
  have "hi - d / 2 - (lo + d / 2) = d * real_of_int (n - 1)"
    using nz by (simp add: d_def field_simps)
  then have step: "(hi - d / 2 - (lo + d / 2)) / real_of_int (n - 1) = d"
    using nz by simp
  have rn: "real (nat n) = real_of_int n" using n by simp
  have s2: "(hi - lo - d) / real_of_int (n - 1) = d"
    using step by (simp add: algebra_simps)
  have pt: "d / 2 + real x * (hi - lo - d) / real_of_int (n - 1)
              = (hi - lo) * (real x + 1 / 2) / real_of_int n" for x
  proof -
    have "real x * (hi - lo - d) / real_of_int (n - 1) = real x * ((hi - lo - d) / real_of_int (n - 1))"
      by simp
    then have e: "real x * (hi - lo - d) / real_of_int (n - 1) = real x * d"
      by (simp only: s2)
    show ?thesis unfolding e using nz(1) by (simp add: d_def field_simps)
  qed
  show ?thesis
    using n1 False unfolding d_def [symmetric]
    by (simp add: linspace_def cell_centres_def pt rn del: of_int_diff)
qed

lemma create_regular_grid_3d_cubic:
  assumes n: "0 < n"
  shows "create_regular_grid_3d [x0, x1, y0, y1, z0, z1] [n, n, n]
           = Inr (spec_regular_grid [x0, x1, y0, y1, z0, z1] [n, n, n])"
proof -
  have nz: "n \<noteq> 0" using n by simp
  show ?thesis
    by (simp add: create_regular_grid_3d_def bind_err_def getitem_def truediv_def nz
        linspace_cell_centres [OF n] spec_regular_grid_def
        del: divide_divide_eq_left)
qed

lemma create_regular_grid_3d_count:
  assumes "create_regular_grid_3d ext [nx, ny, nz] = Inr pts"
  shows "length pts = nat nx * nat ny * nat nz"
  using assms
  by (auto simp: create_regular_grid_3d_def bind_err_def getitem_def truediv_def linspace_def
        length_meshgrid_ravel split: sum.splits if_splits)

text \<open>
  Claim C1. The grid of \<open>create_regular_grid_3d\<close> should be the cell-centred lattice whose
  cell width along each axis is that axis's length divided by that axis's own resolution.
  The source divides the y and z lengths by \<open>resolution[0]\<close>: on the extent
  \<open>[0,2,0,2,0,2]\<close> with resolution \<open>[1,2,1]\<close> it returns the point \<open>(1,1,1)\<close> twice, where
  the cell centres along y are \<open>1/2\<close> and \<open>3/2\<close>.
\<close>

theorem create_regular_grid_3d_not_cell_centred:
  "create_regular_grid_3d [0, 2, 0, 2, 0, 2] [1, 2, 1] = Inr [(1, 1, 1), (1, 1, 1)]
   \<and> spec_regular_grid [0, 2, 0, 2, 0, 2] [1, 2, 1] = [(1, 1 / 2, 1), (1, 3 / 2, 1)]"
  by (simp add: create_regular_grid_3d_def bind_err_def getitem_def truediv_def linspace_def
        spec_regular_grid_def cell_centres_def meshgrid_ravel_def upt_conv_Cons)

section \<open>Properties of the rescaling\<close>

lemma column_max_Max: "xs \<noteq> [] \<Longrightarrow> column_max xs = Finite (Max (set xs))"
  by (cases xs) (simp_all add: Max.set_eq_fold [symmetric] del: set_simps)

lemma column_min_Min: "xs \<noteq> [] \<Longrightarrow> column_min xs = Finite (Min (set xs))"
  by (cases xs) (simp_all add: Min.set_eq_fold [symmetric] del: set_simps)

lemma rescale_value_Finite: "rescale_value x (Finite c) (Finite f) = spec_rescaled x c f"
  by (simp add: rescale_value_def spec_rescaled_def np_subtract_def)

lemma max_min_coord_observed:
  assumes "interfaces rd \<noteq> [] \<or> orientations rd \<noteq> []"
  shows "max_min_coord (interfaces rd) (orientations rd) =
           ((Finite (Max (observed_X rd)), Finite (Max (observed_Y rd)), Finite (Max (observed_Z rd))),
            (Finite (Min (observed_X rd)), Finite (Min (observed_Y rd)), Finite (Min (observed_Z rd))))"
  using assms
  by (auto simp: max_min_coord_def Let_def column_max_Max column_min_Min
        observed_X_def observed_Y_def observed_Z_def)

lemma compute_rescaling_factor_observed:
  "compute_rescaling_factor
      (Finite (Max (observed_X rd)), Finite (Max (observed_Y rd)), Finite (Max (observed_Z rd)))
      (Finite (Min (observed_X rd)), Finite (Min (observed_Y rd)), Finite (Min (observed_Z rd)))
    = Finite (spec_rescaling_factor rd)"
  by (simp add: compute_rescaling_factor_def spec_rescaling_factor_def np_subtract_def
        max.commute max.left_commute)

lemma compute_data_center_observed:
  "compute_data_center
      (Finite (Max (observed_X rd)), Finite (Max (observed_Y rd)), Finite (Max (observed_Z rd)))
      (Finite (Min (observed_X rd)), Finite (Min (observed_Y rd)), Finite (Min (observed_Z rd)))
    = (case spec_centers rd of (cx, cy, cz) \<Rightarrow> (Finite cx, Finite cy, Finite cz))"
  by (simp add: compute_data_center_def spec_centers_def)

lemma map2_put_rescaled:
  "map2 put_rescaled rs (map (\<lambda>r. (a r, b r, c r)) rs)
     = map (\<lambda>r. r\<lparr>X_r := a r, Y_r := b r, Z_r := c r\<rparr>) rs"
  by (induction rs) (simp_all add: put_rescaled_def)

lemma map2_rescale_value_Finite:
  "map2 (\<lambda>e c. rescale_value e c (Finite f)) es (map Finite cs)
     = map2 (\<lambda>e c. spec_rescaled e c f) es cs"
  by (simp add: zip_map2 rescale_value_Finite case_prod_unfold comp_def)

lemma map2_rescale_value_six:
  "map2 (\<lambda>e c. rescale_value e c (Finite f)) es
        [Finite a, Finite b, Finite c, Finite d, Finite u, Finite v]
     = map2 (\<lambda>e c. spec_rescaled e c f) es [a, b, c, d, u, v]"
  using map2_rescale_value_Finite [of f es "[a, b, c, d, u, v]"] by simp

text \<open>
  Claim C2. With at least one observation row and no factor or centres supplied,
  \<open>rescale_data\<close> sets the rescaling factor to twice the largest range of the observed
  bounding box, the centres to its midpoint, and every rescaled coordinate of the
  interfaces, the orientations and the grid values to
  \<open>(x - center) / rescaling_factor + 0.5001\<close>, each grid extent edge being rescaled with the
  centre of its own axis.
\<close>

theorem rescale_data_default:
  assumes obs: "interfaces rd \<noteq> [] \<or> orientations rd \<noteq> []"
      and ext: "length (extent (grid rd)) = 6"
  shows "\<exists>rd'. rescale_data rd None None = Inr rd'
     \<and> rescaling_factor rd' = Some (Finite (spec_rescaling_factor rd))
     \<and> centers rd' = Some (case spec_centers rd of (cx, cy, cz) \<Rightarrow> (Finite cx, Finite cy, Finite cz))
     \<and> (case spec_centers rd of (cx, cy, cz) \<Rightarrow>
          interfaces rd' =
            map (\<lambda>r. r\<lparr>X_r := spec_rescaled (X r) cx (spec_rescaling_factor rd),
                        Y_r := spec_rescaled (Y r) cy (spec_rescaling_factor rd),
                        Z_r := spec_rescaled (Z r) cz (spec_rescaling_factor rd)\<rparr>) (interfaces rd)
        \<and> orientations rd' =
            map (\<lambda>r. r\<lparr>X_r := spec_rescaled (X r) cx (spec_rescaling_factor rd),
                        Y_r := spec_rescaled (Y r) cy (spec_rescaling_factor rd),
                        Z_r := spec_rescaled (Z r) cz (spec_rescaling_factor rd)\<rparr>) (orientations rd)
        \<and> values_r (grid rd') =
            map (\<lambda>(x, y, z). (spec_rescaled x cx (spec_rescaling_factor rd),
                              spec_rescaled y cy (spec_rescaling_factor rd),
                              spec_rescaled z cz (spec_rescaling_factor rd))) (grid_values (grid rd))
        \<and> extent_r (grid rd') =
            map2 (\<lambda>e c. spec_rescaled e c (spec_rescaling_factor rd))
                 (extent (grid rd)) [cx, cx, cy, cy, cz, cz])"
proof -
  obtain cx cy cz where c: "spec_centers rd = (cx, cy, cz)"
    by (cases "spec_centers rd") auto
  show ?thesis
    using ext
    by (simp add: map2_rescale_value_six rescale_data_def max_min_coord_observed [OF obs]
        compute_rescaling_factor_observed compute_data_center_observed c Let_def
        set_rescaled_grid_def rescale_grid_def bind_err_def
        set_rescaled_interfaces_def set_rescaled_orientations_def rescale_interfaces_def
        rescale_orientations_def map2_put_rescaled rescale_value_Finite)
qed

lemma example_spec_rescaling_factor: "spec_rescaling_factor example_rescaled_data = 16"
  by (simp add: spec_rescaling_factor_def observed_X_def observed_Y_def observed_Z_def
        example_rescaled_data_def example_interface_def example_orientation_def)

lemma example_spec_centers: "spec_centers example_rescaled_data = (1, 2, 4)"
  by (simp add: spec_centers_def observed_X_def observed_Y_def observed_Z_def
        example_rescaled_data_def example_interface_def example_orientation_def)

theorem rescale_data_default_witness:
  "interfaces example_rescaled_data \<noteq> []
   \<and> length (extent (grid example_rescaled_data)) = 6
   \<and> (\<exists>rd'. rescale_data example_rescaled_data None None = Inr rd'
        \<and> rescaling_factor rd' = Some (Finite 16)
        \<and> centers rd' = Some (Finite 1, Finite 2, Finite 4)
        \<and> map X_r (interfaces rd') = [Finite 0.4376]
        \<and> map Z_r (orientations rd') = [Finite 0.7501]
        \<and> values_r (grid rd') = [(Finite 0.5001, Finite 0.5001, Finite 0.5001)]
        \<and> extent_r (grid rd') =
             [Finite 0.4376, Finite 0.5626, Finite 0.3751, Finite 0.6251, Finite 0.2501, Finite 0.7501])"
proof -
  have h1: "interfaces example_rescaled_data \<noteq> [] \<or> orientations example_rescaled_data \<noteq> []"
    by (simp add: example_rescaled_data_def)
  have h2: "length (extent (grid example_rescaled_data)) = 6"
    by (simp add: example_rescaled_data_def example_grid_def)
  from rescale_data_default [OF h1 h2] obtain rd' where
    r: "rescale_data example_rescaled_data None None = Inr rd'"
       "rescaling_factor rd' = Some (Finite 16)"
       "centers rd' = Some (Finite 1, Finite 2, Finite 4)"
       "interfaces rd' = map (\<lambda>r. r\<lparr>X_r := spec_rescaled (X r) 1 16,
                        Y_r := spec_rescaled (Y r) 2 16,
                        Z_r := spec_rescaled (Z r) 4 16\<rparr>) (interfaces example_rescaled_data)"
       "orientations rd' = map (\<lambda>r. r\<lparr>X_r := spec_rescaled (X r) 1 16,
                        Y_r := spec_rescaled (Y r) 2 16,
                        Z_r := spec_rescaled (Z r) 4 16\<rparr>) (orientations example_rescaled_data)"
       "values_r (grid rd') = map (\<lambda>(x, y, z). (spec_rescaled x 1 16, spec_rescaled y 2 16,
                              spec_rescaled z 4 16)) (grid_values (grid example_rescaled_data))"
       "extent_r (grid rd') = map2 (\<lambda>e c. spec_rescaled e c 16)
                 (extent (grid example_rescaled_data)) [1, 1, 2, 2, 4, 4]"
    unfolding example_spec_rescaling_factor example_spec_centers by auto
  have i: "map X_r (interfaces rd') = [Finite 0.4376]"
    by (simp add: r(4) example_rescaled_data_def example_interface_def spec_rescaled_def)
  have z: "map Z_r (orientations rd') = [Finite 0.7501]"
    by (simp add: r(5) example_rescaled_data_def example_orientation_def spec_rescaled_def)
  have v: "values_r (grid rd') = [(Finite 0.5001, Finite 0.5001, Finite 0.5001)]"
    by (simp add: r(6) example_rescaled_data_def example_grid_def spec_rescaled_def)
  have e: "extent_r (grid rd') =
             [Finite 0.4376, Finite 0.5626, Finite 0.3751, Finite 0.6251, Finite 0.2501, Finite 0.7501]"
    by (simp add: r(7) example_rescaled_data_def example_grid_def spec_rescaled_def)
  show ?thesis
  proof (intro conjI)
    show "interfaces example_rescaled_data \<noteq> []"
      by (simp add: example_rescaled_data_def)
    show "length (extent (grid example_rescaled_data)) = 6"
      by (rule h2)
    show "\<exists>rd'. rescale_data example_rescaled_data None None = Inr rd'
        \<and> rescaling_factor rd' = Some (Finite 16)
        \<and> centers rd' = Some (Finite 1, Finite 2, Finite 4)
        \<and> map X_r (interfaces rd') = [Finite 0.4376]
        \<and> map Z_r (orientations rd') = [Finite 0.7501]
        \<and> values_r (grid rd') = [(Finite 0.5001, Finite 0.5001, Finite 0.5001)]
        \<and> extent_r (grid rd') =
             [Finite 0.4376, Finite 0.5626, Finite 0.3751, Finite 0.6251, Finite 0.2501, Finite 0.7501]"
      by (rule exI [of _ rd'], intro conjI) (rule r(1) r(2) r(3) i z v e)+
  qed
qed

section \<open>Properties of the orientation conversions\<close>














section \<open>Properties of the structure counts\<close>

lemma set_unique_values: "set (unique_values xs) = set xs"
  by (simp add: unique_values_def)

lemma distinct_unique_values: "distinct (unique_values xs)"
  by (simp add: unique_values_def)

lemma sum_list_value_counts: "sum_list (value_counts col) = length (dropna col)"
proof -
  let ?ys = "dropna col"
  have "sum_list (value_counts col) = sum (count_list ?ys) (set (unique_values ?ys))"
    unfolding value_counts_def
    by (rule sum_list_distinct_conv_sum_set) (rule distinct_unique_values)
  also have "\<dots> = length ?ys"
    by (simp add: set_unique_values sum_count_set)
  finally show ?thesis .
qed

lemma dropna_Cons: "dropna (v # col) = (case v of None \<Rightarrow> [] | Some a \<Rightarrow> [a]) @ dropna col"
  by (simp add: dropna_def)

lemma dropna_Nil: "dropna [] = []"
  by (simp add: dropna_def)

lemma length_dropna_populated:
  "None \<notin> set col \<Longrightarrow> length (dropna col) = length col"
proof (induction col)
  case Nil
  show ?case by (simp add: dropna_Nil)
next
  case (Cons v col)
  then show ?case by (cases v) (simp_all add: dropna_Cons)
qed

lemma set_dropna: "set (dropna col) = {a. Some a \<in> set col}"
proof (induction col)
  case Nil
  show ?case by (simp add: dropna_Nil)
next
  case (Cons v col)
  then show ?case by (cases v) (auto simp: dropna_Cons)
qed

lemma cumsum_from_bounds: "\<forall>y \<in> set (cumsum_from acc xs). acc \<le> y"
  by (induction xs arbitrary: acc) (auto intro: order_trans [OF le_add1])

lemma sorted_cumsum_from: "sorted (cumsum_from acc xs)"
proof (induction xs arbitrary: acc)
  case Nil
  show ?case by simp
next
  case (Cons x xs)
  show ?case using Cons.IH [of "acc + x"] cumsum_from_bounds [of "acc + x" xs] by simp
qed

lemma last_cumsum_from: "xs \<noteq> [] \<Longrightarrow> last (cumsum_from acc xs) = acc + sum_list xs"
proof (induction xs arbitrary: acc)
  case Nil
  then show ?case by simp
next
  case (Cons x xs)
  show ?case
  proof (cases "xs = []")
    case True
    then show ?thesis by simp
  next
    case False
    have ne: "cumsum_from (acc + x) xs \<noteq> []" using False by (cases xs) simp_all
    show ?thesis using Cons.IH [OF False, of "acc + x"] ne by simp
  qed
qed

lemma cumsum_from_eq_Nil: "cumsum_from acc xs = [] \<longleftrightarrow> xs = []"
  by (cases xs) simp_all

lemma nunique_card: "nunique xs = card (set xs)"
  by (simp add: nunique_def length_remdups_card_conv)

lemma set_group_keys: "set (group_keys df) = {k. \<exists>r \<in> set df. order_series r = Some k}"
proof -
  have "set (group_keys df) = set (dropna (map order_series df))"
    by (simp add: group_keys_def)
  also have "\<dots> = {k. \<exists>r \<in> set df. order_series r = Some k}"
    unfolding set_dropna by force
  finally show ?thesis .
qed

lemma group_keys_eq_Nil: "None \<notin> set (map order_series df) \<Longrightarrow> group_keys df = [] \<longleftrightarrow> df = []"
proof
  assume p: "None \<notin> set (map order_series df)" and e: "group_keys df = []"
  show "df = []"
  proof (cases df)
    case Nil then show ?thesis .
  next
    case (Cons r rs)
    then obtain k where "order_series r = Some k" using p by (cases "order_series r") auto
    then have "k \<in> set (group_keys df)" using Cons by (auto simp: set_group_keys)
    then show ?thesis using e by simp
  qed
next
  assume "df = []" then show "group_keys df = []" by (simp add: group_keys_def dropna_def)
qed

lemma sum_group_surfaces:
  assumes pop: "None \<notin> set (map order_series df)"
      and fd: "\<forall>r \<in> set df. \<forall>r' \<in> set df. surface r = surface r' \<longrightarrow> order_series r = order_series r'"
  shows "sum_list (map (\<lambda>k. nunique (group_surfaces df k)) (group_keys df)) = card (surface ` set df)"
proof -
  let ?K = "set (group_keys df)"
  let ?S = "\<lambda>k. set (group_surfaces df k)"
  have d: "distinct (group_keys df)" by (simp add: group_keys_def)
  have "sum_list (map (\<lambda>k. nunique (group_surfaces df k)) (group_keys df)) = (\<Sum>k \<in> ?K. card (?S k))"
    by (simp add: sum_list_distinct_conv_sum_set [OF d] nunique_card)
  also have "\<dots> = card (\<Union>k \<in> ?K. ?S k)"
  proof (rule card_UN_disjoint [symmetric])
    show "finite ?K" by simp
    show "\<forall>i \<in> ?K. finite (?S i)" by simp
    show "\<forall>i \<in> ?K. \<forall>j \<in> ?K. i \<noteq> j \<longrightarrow> ?S i \<inter> ?S j = {}"
    proof (intro ballI impI)
      fix i j :: nat assume ij: "i \<noteq> j"
      show "?S i \<inter> ?S j = {}"
      proof (rule ccontr)
        assume "?S i \<inter> ?S j \<noteq> {}"
        then obtain s where "s \<in> ?S i" "s \<in> ?S j" by blast
        then obtain r r' where "r \<in> set df" "order_series r = Some i" "surface r = s"
            "r' \<in> set df" "order_series r' = Some j" "surface r' = s"
          by (auto simp: group_surfaces_def)
        with fd ij show False by (metis option.inject)
      qed
    qed
  qed
  also have "(\<Union>k \<in> ?K. ?S k) = surface ` set df"
  proof
    show "(\<Union>k \<in> ?K. ?S k) \<subseteq> surface ` set df" by (auto simp: group_surfaces_def)
    show "surface ` set df \<subseteq> (\<Union>k \<in> ?K. ?S k)"
    proof
      fix s assume "s \<in> surface ` set df"
      then obtain r where r: "r \<in> set df" "s = surface r" by auto
      then obtain k where k: "order_series r = Some k" using pop by (cases "order_series r") force+
      then have "k \<in> ?K" using r by (auto simp: set_group_keys)
      moreover have "s \<in> ?S k" using r k by (auto simp: group_surfaces_def)
      ultimately show "s \<in> (\<Union>k \<in> ?K. ?S k)" by blast
    qed
  qed
  finally show ?thesis .
qed

text \<open>
  Claim C4, amended. For an Interfaces table whose \<open>id\<close> and \<open>order_series\<close> columns are
  populated on every row and in which the rows of one surface all carry the same
  \<open>order_series\<close>: \<open>len_formations_i\<close> and \<open>len_series_i\<close> each sum to the number of
  interface points, \<open>len_series_i\<close> of the empty table is \<open>[0]\<close>, and \<open>nfs\<close> is
  non-decreasing; \<open>nfs\<close> is empty for the empty table and otherwise ends with the number of
  distinct surfaces of the table.
\<close>

theorem structure_counts:
  assumes ids: "None \<notin> set (map id_col df)"
      and ord: "None \<notin> set (map order_series df)"
      and fd: "\<forall>r \<in> set df. \<forall>r' \<in> set df. surface r = surface r' \<longrightarrow> order_series r = order_series r'"
  shows "sum_list (set_length_formations_i df) = length df
     \<and> sum_list (set_length_series_i df) = length df
     \<and> set_length_series_i [] = [0]
     \<and> sorted (set_number_of_formations_per_series df)
     \<and> (if df = [] then set_number_of_formations_per_series df = []
         else last (set_number_of_formations_per_series df) = card (surface ` set df))"
proof (intro conjI)
  show "sum_list (set_length_formations_i df) = length df"
    by (simp add: set_length_formations_i_def sum_list_value_counts length_dropna_populated [OF ids])
  have "sum_list (value_counts (map order_series df)) = length df"
    by (simp add: sum_list_value_counts length_dropna_populated [OF ord])
  then show "sum_list (set_length_series_i df) = length df"
    by (auto simp: set_length_series_i_def Let_def)
  show "set_length_series_i [] = [0]"
    by (simp add: set_length_series_i_def value_counts_def dropna_def unique_values_def)
  show "sorted (set_number_of_formations_per_series df)"
    by (simp add: set_number_of_formations_per_series_def cumsum_def sorted_cumsum_from)
  show "if df = [] then set_number_of_formations_per_series df = []
         else last (set_number_of_formations_per_series df) = card (surface ` set df)"
  proof (cases "df = []")
    case True
    then show ?thesis
      by (simp add: set_number_of_formations_per_series_def cumsum_def group_keys_def dropna_def)
  next
    case False
    then have "group_keys df \<noteq> []" using group_keys_eq_Nil [OF ord] by simp
    then have "last (set_number_of_formations_per_series df)
                 = sum_list (map (\<lambda>k. nunique (group_surfaces df k)) (group_keys df))"
      by (simp add: set_number_of_formations_per_series_def cumsum_def last_cumsum_from)
    then show ?thesis using False sum_group_surfaces [OF ord fd] by simp
  qed
qed

lemma split_surface_nfs: "set_number_of_formations_per_series example_split_surface = [1, 2]"
  by code_simp

lemma split_surface_card: "card (surface ` set example_split_surface) = 1"
  by (simp add: example_split_surface_def interface_of_def)

text \<open>
  Without the condition on the surfaces the last entry of \<open>nfs\<close> can exceed the number of
  distinct surfaces: a surface whose rows carry two series ranks is counted in both groups.
  And the empty table has no last entry.
\<close>

theorem structure_counts_counterexample:
  "None \<notin> set (map id_col example_split_surface)
   \<and> None \<notin> set (map order_series example_split_surface)
   \<and> set_number_of_formations_per_series example_split_surface = [1, 2]
   \<and> card (surface ` set example_split_surface) = 1
   \<and> set_number_of_formations_per_series [] = []"
  by (simp add: split_surface_nfs split_surface_card)
     (simp add: example_split_surface_def interface_of_def set_number_of_formations_per_series_def
        cumsum_def group_keys_def dropna_def)

theorem structure_counts_witness:
  "sum_list (set_length_formations_i example_interfaces) = 3
   \<and> sum_list (set_length_series_i example_interfaces) = 3
   \<and> sorted (set_number_of_formations_per_series example_interfaces)
   \<and> last (set_number_of_formations_per_series example_interfaces) = 2"
proof -
  have ids: "None \<notin> set (map id_col example_interfaces)"
    by (simp add: example_interfaces_def interface_of_def)
  have ord: "None \<notin> set (map order_series example_interfaces)"
    by (simp add: example_interfaces_def interface_of_def)
  have fd: "\<forall>r \<in> set example_interfaces. \<forall>r' \<in> set example_interfaces.
              surface r = surface r' \<longrightarrow> order_series r = order_series r'"
    by (simp add: example_interfaces_def interface_of_def)
  have c: "card (surface ` set example_interfaces) = 2"
    by (simp add: example_interfaces_def interface_of_def)
  have ne: "example_interfaces \<noteq> []" "length example_interfaces = 3"
    by (simp_all add: example_interfaces_def)
  show ?thesis
    using structure_counts [OF ids ord fd] unfolding c by (simp add: ne)
qed

section \<open>Properties of the default kriging parameters\<close>










section \<open>Properties of the surface extraction\<close>












section \<open>Properties of the series bookkeeping\<close>

lemma index_aligned_frame_ok: "index_aligned self \<Longrightarrow> frame_ok self"
  by (simp add: index_aligned_def frame_ok_def)

lemma assign_all_aligned:
  assumes ok: "frame_ok self" and a: "assign_all self idx = Inr s'"
  shows "index_aligned s'"
  using a ok
  by (auto simp: assign_all_def assign_axis_def bind_err_def index_aligned_def frame_ok_def
      split: if_splits)

lemma length_drop_entries:
  "length xs = length ls \<Longrightarrow>
     length (drop_entries ls ks xs) = length (filter (\<lambda>l. l \<notin> set ks) ls)"
  unfolding drop_entries_def
  by (induction xs ls rule: list_induct2) simp_all

lemma set_drop_entries: "set (drop_entries ls ks xs) \<subseteq> set xs"
  unfolding drop_entries_def by (auto dest: set_zip_rightD)

lemma delete_series_aligned:
  assumes al: "index_aligned self" and d: "delete_series self indices = Inr s'"
  shows "index_aligned s'"
proof -
  from d obtain di fi ri rc where
        di: "drop_labels (df_index self) indices = Inr di"
    and fi: "drop_labels (faults_df_index self) indices = Inr fi"
    and ri: "drop_labels (rel_index self) indices = Inr ri"
    and rc: "drop_labels (rel_columns self) indices = Inr rc"
    and a: "assign_all
         (self\<lparr>df_index := di,
               df_order_series := drop_entries (labels (df_index self)) indices (df_order_series self),
               faults_df_index := fi, rel_index := ri, rel_columns := rc,
               rel_data := map (drop_entries (labels (rel_columns self)) indices)
                             (drop_entries (labels (rel_index self)) indices (rel_data self))\<rparr>)
         (remove_unused_categories di) = Inr s'"
    by (auto simp: delete_series_def bind_err_def split: sum.splits)
  have lri: "labels ri = filter (\<lambda>l. l \<notin> set indices) (labels (rel_index self))"
    using ri by (auto simp: drop_labels_def split: if_splits)
  have lrc: "labels rc = filter (\<lambda>l. l \<notin> set indices) (labels (rel_columns self))"
    using rc by (auto simp: drop_labels_def split: if_splits)
  have ok: "frame_ok self" by (rule index_aligned_frame_ok [OF al])
  have rows: "length (drop_entries (labels (rel_index self)) indices (rel_data self)) = length (labels ri)"
    using ok by (simp add: frame_ok_def length_drop_entries lri)
  have cols: "\<forall>row \<in> set (drop_entries (labels (rel_index self)) indices (rel_data self)).
               length (drop_entries (labels (rel_columns self)) indices row) = length (labels rc)"
  proof
    fix row assume "row \<in> set (drop_entries (labels (rel_index self)) indices (rel_data self))"
    then have "row \<in> set (rel_data self)"
      using set_drop_entries [of "labels (rel_index self)" indices "rel_data self"] by auto
    then have "length row = length (labels (rel_columns self))"
      using ok by (simp add: frame_ok_def list_all_iff)
    then show "length (drop_entries (labels (rel_columns self)) indices row) = length (labels rc)"
      by (simp add: length_drop_entries lrc)
  qed
  show ?thesis
    by (rule assign_all_aligned [OF _ a]) (simp add: frame_ok_def rows cols list_all_iff)
qed

lemma rename_series_aligned:
  "index_aligned self \<Longrightarrow> rename_series self new_categories = Inr s' \<Longrightarrow> index_aligned s'"
  by (auto simp: rename_series_def bind_err_def split: sum.splits
      intro: assign_all_aligned [OF index_aligned_frame_ok])

lemma reorder_series_aligned:
  "index_aligned self \<Longrightarrow> reorder_series self new_categories = Inr s' \<Longrightarrow> index_aligned s'"
  by (auto simp: reorder_series_def bind_err_def split: sum.splits
      intro: assign_all_aligned [OF index_aligned_frame_ok])

lemma length_loc_set_nan:
  "length cells = length rl \<Longrightarrow>
     length (loc_set_nan rl cl c cells) = (if c \<in> set rl then length rl else Suc (length rl))"
  by (simp add: loc_set_nan_def Let_def)

lemma rows_loc_set_nan:
  assumes "list_all (\<lambda>row. length row = length cl) cells"
  shows "list_all (\<lambda>row. length row = (if c \<in> set cl then length cl else Suc (length cl)))
           (loc_set_nan rl cl c cells)"
  using assms
  by (auto simp: loc_set_nan_def Let_def list_all_iff dest!: set_zip_rightD)

lemma add_series_row_aligned:
  assumes al: "index_aligned self" and r: "add_series_row c self = Inr s'"
  shows "index_aligned s'"
proof -
  let ?i = "df_index self"
  have eq: "faults_df_index self = ?i" "rel_index self = ?i" "rel_columns self = ?i"
    and len: "length (rel_data self) = length (labels ?i)"
    and rows: "list_all (\<lambda>row. length row = length (labels ?i)) (rel_data self)"
    using al by (simp_all add: index_aligned_def)
  from r obtain di where di: "loc_enlarge ?i c = Inr di"
    and s': "s' = self\<lparr>df_index := di,
                 df_order_series := (if c \<in> set (labels ?i)
                                     then map (\<lambda>(l, v). if l = c then None else v)
                                            (zip (labels ?i) (df_order_series self))
                                     else df_order_series self @ [None]),
                 faults_df_index := di, rel_index := di, rel_columns := di,
                 rel_data := loc_set_nan (labels ?i) (labels ?i) c (rel_data self)\<rparr>"
    by (auto simp: add_series_row_def bind_err_def eq split: sum.splits)
  have ldi: "length (labels di) = (if c \<in> set (labels ?i) then length (labels ?i) else Suc (length (labels ?i)))"
    using di by (auto simp: loc_enlarge_def split: if_splits)
  show ?thesis
    using length_loc_set_nan [OF len, of "labels ?i" c] rows_loc_set_nan [OF rows, of c "labels ?i"]
    by (simp add: s' index_aligned_def ldi)
qed

lemma add_series_rows_aligned:
  "index_aligned self \<Longrightarrow> add_series_rows cs self = Inr s' \<Longrightarrow> index_aligned s'"
proof (induction cs arbitrary: self)
  case Nil
  then show ?case by simp
next
  case (Cons c cs)
  then show ?case
    by (auto simp: bind_err_def split: sum.splits dest: add_series_row_aligned)
qed

lemma update_order_series_aligned: "index_aligned self \<Longrightarrow> index_aligned (update_order_series self)"
  by (simp add: index_aligned_def update_order_series_def)

lemma add_series_aligned:
  assumes al: "index_aligned self" and a: "add_series self series_list update = Inr s'"
  shows "index_aligned s'"
proof -
  from a obtain idx s1 s2 where
        "assign_all self idx = Inr s1"
    and "add_series_rows (filter (\<lambda>c. c \<notin> set (categories (df_index self))) series_list) s1 = Inr s2"
    and s': "s' = (if update then update_order_series s2 else s2)"
    by (auto simp: add_series_def Let_def bind_err_def split: sum.splits)
  then have "index_aligned s2"
    using assign_all_aligned [OF index_aligned_frame_ok [OF al]] add_series_rows_aligned by blast
  then show ?thesis by (simp add: s' update_order_series_aligned)
qed

lemma apply_series_op_aligned:
  "index_aligned self \<Longrightarrow> apply_series_op x self = Inr s' \<Longrightarrow> index_aligned s'"
  by (cases x) (auto dest: add_series_aligned rename_series_aligned reorder_series_aligned
      delete_series_aligned)

lemma apply_series_ops_aligned:
  "index_aligned self \<Longrightarrow> apply_series_ops xs self = Inr s' \<Longrightarrow> index_aligned s'"
proof (induction xs arbitrary: self)
  case Nil
  then show ?case by simp
next
  case (Cons x xs)
  then show ?case
    by (auto simp: bind_err_def split: sum.splits dest: apply_series_op_aligned)
qed

lemma example_series_run:
  "apply_series_ops example_series_ops example_series =
     Inr \<lparr>df_index = \<lparr>categories = [''B2'', ''C''], labels = [''B2'', ''C'']\<rparr>,
          df_order_series = [Some 2, Some 3],
          faults_df_index = \<lparr>categories = [''B2'', ''C''], labels = [''B2'', ''C'']\<rparr>,
          rel_index = \<lparr>categories = [''B2'', ''C''], labels = [''B2'', ''C'']\<rparr>,
          rel_columns = \<lparr>categories = [''B2'', ''C''], labels = [''B2'', ''C'']\<rparr>,
          rel_data = [[Some False, None], [None, None]]\<rparr>"
  by code_simp

text \<open>
  Claim C6. From a state in which the fault relation frame is indexed by the Series index,
  every sequence of \<open>add_series\<close>, \<open>rename_series\<close>, \<open>reorder_series\<close> and \<open>delete_series\<close>
  that runs through leaves the frame square, with its row index and its column index equal
  to the Series index. Starting with the series A, B, adding C, renaming B to B2 and
  deleting A leaves a two by two matrix indexed B2, C.
\<close>

theorem fault_relations_stay_aligned:
  assumes "index_aligned self" and "apply_series_ops xs self = Inr s'"
  shows "rel_index s' = df_index s' \<and> rel_columns s' = df_index s'
     \<and> length (rel_data s') = length (labels (df_index s'))
     \<and> list_all (\<lambda>row. length row = length (labels (df_index s'))) (rel_data s')
     \<and> (\<exists>s. apply_series_ops example_series_ops example_series = Inr s
            \<and> labels (df_index s) = [''B2'', ''C'']
            \<and> labels (rel_index s) = [''B2'', ''C'']
            \<and> labels (rel_columns s) = [''B2'', ''C'']
            \<and> map length (rel_data s) = [2, 2])"
proof -
  have "index_aligned s'" by (rule apply_series_ops_aligned [OF assms])
  then show ?thesis by (simp add: index_aligned_def example_series_run)
qed

theorem fault_relations_stay_aligned_witness:
  "index_aligned example_series
   \<and> (\<exists>s. apply_series_ops example_series_ops example_series = Inr s
          \<and> rel_index s = df_index s \<and> rel_columns s = df_index s
          \<and> labels (df_index s) = [''B2'', ''C'']
          \<and> length (rel_data s) = 2)"
proof -
  have a: "index_aligned example_series"
    by (simp add: example_series_def index_aligned_def Let_def)
  obtain s where s: "apply_series_ops example_series_ops example_series = Inr s"
    using example_series_run by blast
  from fault_relations_stay_aligned [OF a s]
  have "rel_index s = df_index s" "rel_columns s = df_index s"
       "length (rel_data s) = length (labels (df_index s))"
    by simp_all
  moreover have "labels (df_index s) = [''B2'', ''C'']"
    using s unfolding example_series_run by auto
  ultimately show ?thesis using a s by auto
qed

section \<open>Properties of the formations catalog\<close>

lemma add_formation_example:
  "add_formation empty_formations [''rock1'', ''rock2'', ''rock3''] True = Inr example_formations"
  by code_simp

text \<open>
  Claim C7. After every structural change the ids of the catalog should be \<open>1 .. n\<close> down
  the rows. \<open>set_id\<close> numbers a row by its index label, and \<open>delete_formation\<close> keeps the
  labels of the rows that stay: deleting the first of three formations leaves the ids 2
  and 3.
\<close>

theorem delete_formation_ids_not_consecutive:
  "add_formation empty_formations [''rock1'', ''rock2'', ''rock3''] True = Inr example_formations
   \<and> delete_formation example_formations [0] True =
       Inr \<lparr>formation_categories = [''rock1'', ''rock2'', ''rock3''],
            df_rows = [\<lparr>row_label = 1, formation = ''rock2'', formation_id = Some 2, isBasement = Some False\<rparr>,
                       \<lparr>row_label = 2, formation = ''rock3'', formation_id = Some 3, isBasement = Some False\<rparr>]\<rparr>"
  by (rule conjI, rule add_formation_example) code_simp

text \<open>A second basement is refused by the assertion of \<open>add_basement\<close>, whatever the name.\<close>

lemma add_basement_second_refused:
  assumes "Some True \<in> isBasement ` set (df_rows self)"
  shows "add_basement self name_arg = Inl AssertionError"
proof -
  from assms obtain r where r: "r \<in> set (df_rows self)" "isBasement r = Some True" by force
  then have "r \<in> set (df_rows (fillna_isBasement self))"
    by (force simp: fillna_isBasement_def)
  with r(2) have "r \<in> set (filter (\<lambda>r. isBasement r \<noteq> Some False) (df_rows (fillna_isBasement self)))"
    by simp
  then have "filter (\<lambda>r. isBasement r \<noteq> Some False) (df_rows (fillna_isBasement self)) \<noteq> []"
    by (metis empty_iff empty_set)
  then have "0 < count_basement (fillna_isBasement self)"
    by (simp add: count_basement_def)
  then show ?thesis by (simp add: add_basement_def Let_def)
qed

lemma fillna_isBasement_rows:
  "df_rows (fillna_isBasement self) =
     map (\<lambda>r. case isBasement r of None \<Rightarrow> r\<lparr>isBasement := Some False\<rparr> | Some b \<Rightarrow> r) (df_rows self)"
  by (simp add: fillna_isBasement_def)

lemma fillna_no_basement:
  assumes "Some True \<notin> isBasement ` set (df_rows self)"
  shows "\<forall>r \<in> set (df_rows (fillna_isBasement self)). isBasement r = Some False"
proof
  fix r assume "r \<in> set (df_rows (fillna_isBasement self))"
  then obtain r0 where r0: "r0 \<in> set (df_rows self)"
      and r: "r = (case isBasement r0 of None \<Rightarrow> r0\<lparr>isBasement := Some False\<rparr> | Some b \<Rightarrow> r0)"
    by (auto simp: fillna_isBasement_rows)
  show "isBasement r = Some False"
  proof (cases "isBasement r0")
    case None
    then show ?thesis by (simp add: r)
  next
    case (Some b)
    with assms r0 have "b = False" by force
    then show ?thesis using Some by (simp add: r)
  qed
qed

lemma count_flagged_update:
  assumes "distinct (map row_label rows)" and "l \<in> set (map row_label rows)"
      and "\<forall>r \<in> set rows. isBasement r = Some False"
  shows "length (filter (\<lambda>r. isBasement r = Some True)
           (map (\<lambda>r. if row_label r = l then r\<lparr>formation := n, isBasement := Some True\<rparr> else r) rows)) = 1"
  using assms
proof (induction rows)
  case Nil
  then show ?case by simp
next
  case (Cons r rows)
  show ?case
  proof (cases "row_label r = l")
    case True
    then have "l \<notin> set (map row_label rows)" using Cons.prems(1) by auto
    then have "map (\<lambda>r. if row_label r = l then r\<lparr>formation := n, isBasement := Some True\<rparr> else r) rows = rows"
      by (induction rows) auto
    then show ?thesis using True Cons.prems(3) by (simp add: filter_empty_conv)
  next
    case False
    then show ?thesis using Cons by auto
  qed
qed

text \<open>
  On a catalog that has rows, distinct labels and no basement, \<open>add_basement\<close> with a new
  name succeeds and leaves exactly one row flagged.
\<close>

lemma add_basement_single:
  assumes ne: "df_rows self \<noteq> []"
      and lab: "distinct (map row_label (df_rows self))"
      and nb: "Some True \<notin> isBasement ` set (df_rows self)"
      and fresh: "name \<notin> set (formation_categories self)"
  shows "\<exists>s. add_basement self (Some name) = Inr s
           \<and> length (filter (\<lambda>r. isBasement r = Some True) (df_rows s)) = 1"
proof -
  let ?s1 = "fillna_isBasement self"
  let ?rows = "df_rows ?s1"
  have allF: "\<forall>r \<in> set ?rows. isBasement r = Some False" by (rule fillna_no_basement [OF nb])
  then have cnt: "count_basement ?s1 = 0" by (simp add: count_basement_def filter_empty_conv)
  have ne1: "?rows \<noteq> []" using ne by (simp add: fillna_isBasement_rows)
  have labs: "map row_label ?rows = map row_label (df_rows self)"
    by (simp add: fillna_isBasement_rows comp_def split: option.splits cong: map_cong)
  have cats: "formation_categories ?s1 = formation_categories self"
    by (simp add: fillna_isBasement_def)
  define i where "i = row_label (last ?rows)"
  have lvi: "last_valid_index ?rows = Some i" using ne1 by (simp add: last_valid_index_def i_def)
  define new_rows where "new_rows = loc_set_row ?rows (i + 1)
                                         (\<lambda>r. r\<lparr>formation := name, isBasement := Some True\<rparr>)
                                         \<lparr>row_label = i + 1, formation = name, formation_id = None,
                                          isBasement = Some True\<rparr>"
  have one: "length (filter (\<lambda>r. isBasement r = Some True) new_rows) = 1"
  proof (cases "i + 1 \<in> set (map row_label ?rows)")
    case True
    then show ?thesis
      unfolding new_rows_def loc_set_row_def
      using count_flagged_update [of ?rows "i + 1" name] lab allF labs by simp
  next
    case False
    then show ?thesis
      unfolding new_rows_def loc_set_row_def using allF by (simp add: filter_empty_conv)
  qed
  have "add_basement self (Some name) =
          Inr (set_id (?s1\<lparr>formation_categories := formation_categories ?s1 @ [name], df_rows := new_rows\<rparr>))"
    using cnt fresh lvi by (simp add: add_basement_def Let_def cats new_rows_def)
  moreover have "length (filter (\<lambda>r. isBasement r = Some True)
                   (df_rows (set_id (?s1\<lparr>formation_categories := formation_categories ?s1 @ [name], df_rows := new_rows\<rparr>)))) = 1"
    using one by (simp add: set_id_def filter_map comp_def)
  ultimately show ?thesis by blast
qed

text \<open>
  Claim C8. Marking a second surface as basement raises, and marking a single one should
  succeed on every catalog. On the catalog without rows \<open>add_basement\<close> raises TypeError
  instead, from \<open>last_valid_index() + 1\<close>; \<open>add_formation\<close> guards the same expression and
  adds its row to the empty catalog.
\<close>

theorem add_basement_empty_catalog:
  "add_basement empty_formations None = Inl TypeError
   \<and> add_formation empty_formations [''basement''] True =
       Inr \<lparr>formation_categories = [''basement''],
            df_rows = [\<lparr>row_label = 0, formation = ''basement'', formation_id = Some 1,
                        isBasement = Some False\<rparr>]\<rparr>"
  by (rule conjI) code_simp+

section \<open>Properties of add-orientation\<close>

text \<open>Whatever its arguments, \<open>add_orientation\<close> raises: no call returns a table.\<close>

lemma add_orientation_never_returns:
  "\<exists>e. add_orientation df x y z s pole_vector orientation idx_arg = Inl e"
  by (auto simp: add_orientation_def bind_err_def loc_setitem_def split: option.splits)

text \<open>
  Claim C10. When a pole vector and an orientation are both supplied, the orientation
  should be recomputed from the gradient, with a warning. \<open>add_orientation\<close> raises
  before it gets there, on the \<open>.loc\<close> key of eight components.
\<close>

theorem add_orientation_raises:
  "add_orientation [example_pole_east] 1 1 1 ''rock1'' (Some (0, 0, 1)) (Some (90, 45, 1)) None
     = Inl KeyError"
  by (simp add: add_orientation_def bind_err_def loc_setitem_def)

end
